theory Spec2Isabelle
  imports Main
begin

section \<open>BlockEditorProvider: synchronising a controlled value with the block-editor store\<close>

text \<open>
  The class \<^verbatim>\<open>BlockEditorProvider\<close> keeps the \<^verbatim>\<open>value\<close> prop of its host and the blocks of
  the \<^verbatim>\<open>core/block-editor\<close> store in step. Every value it handles is a JavaScript object (an
  array of blocks, a settings object, a selection object, a registry), and the code only ever
  compares such objects by identity (\<^verbatim>\<open>===\<close>, \<^verbatim>\<open>!==\<close>, \<^verbatim>\<open>Array.prototype.includes\<close>). An
  object is therefore represented by its reference, and HOL equality on references is
  \<^verbatim>\<open>===\<close>. A prop or field that may be \<^verbatim>\<open>undefined\<close> or \<^verbatim>\<open>null\<close> is an \<open>option\<close>; an
  object is truthy, \<^verbatim>\<open>undefined\<close> and \<^verbatim>\<open>null\<close> are falsy, so a truthiness test on such a
  field is the test \<open>\<noteq> None\<close>.
\<close>

type_synonym ref = nat

subsection \<open>The store, as the component reads it\<close>

text \<open>
  The six selectors that \<^verbatim>\<open>attachChangeObserver\<close> takes from
  \<^verbatim>\<open>registry.select( 'core/block-editor' )\<close>. A store state is a record of what they
  return at that moment; the extension slot of the record is the rest of the store's state.
  The selector \<^verbatim>\<open>__unstableIsLastBlockChangeIgnored\<close> is named without its leading
  underscores.
\<close>

record selectors =
  getBlocks :: ref
  getSelectionStart :: "ref option"
  getSelectionEnd :: "ref option"
  areAnyInnerBlocksControlled :: bool
  isLastBlockChangePersistent :: bool
  unstableIsLastBlockChangeIgnored :: bool

subsection \<open>Props, instance fields and effects\<close>

text \<open>
  The props the component reads. \<open>value_prop\<close> is the prop \<^verbatim>\<open>value\<close>, the host's array of
  blocks. The handlers \<^verbatim>\<open>onChange\<close> and \<^verbatim>\<open>onInput\<close> (\<^verbatim>\<open>noop\<close> when the host gives none) and
  the three dispatch props appear as the effects below.
\<close>

record props =
  settings :: ref
  value_prop :: ref
  selectionStart :: "ref option"
  selectionEnd :: "ref option"
  registry :: ref

text \<open>
  The mutable state of one component instance: the two fields on \<^verbatim>\<open>this\<close> that steer the
  synchronisation, the subscription handle, and the three variables of the closure that
  \<^verbatim>\<open>attachChangeObserver\<close> creates. \<open>isSyncingOutcomingValue\<close> is the queue of values handed
  to the host and not yet seen coming back, oldest first. \<open>isSyncingIncomingValue\<close> is the
  marker of a value being installed from the host: \<^verbatim>\<open>undefined\<close> at first, an array of blocks
  once set, \<^verbatim>\<open>null\<close> once cleared. \<open>unsubscribe\<close> holds the registry the live subscription
  belongs to.
\<close>

record provider =
  isSyncingOutcomingValue :: "ref list"
  isSyncingIncomingValue :: "ref option"
  unsubscribe :: "ref option"
  blocks :: ref
  isPersistent :: bool
  previousAreBlocksDifferent :: bool

text \<open>What the component does to the outside: actions dispatched to the store, calls of the
  host's handlers, and subscriptions.\<close>

datatype action = UpdateSettings ref | ResetBlocks ref | ResetSelection ref ref

datatype effect =
    Dispatch action
  | OnChange ref "ref option" "ref option"
  | OnInput ref "ref option" "ref option"
  | Subscribe ref
  | Unsubscribe ref

subsection \<open>The change observer (the callback given to \<^verbatim>\<open>registry.subscribe\<close>)\<close>

text \<open>
  Lines 116 to 120. \<^verbatim>\<open>isShallowEqual\<close> is imported from the package
  \<^verbatim>\<open>@wordpress/is-shallow-equal\<close>. It compares what two objects hold, which a reference does
  not show, so it is a parameter of the model: a relation on references.
\<close>

definition areBlocksDifferent ::
  "(ref \<Rightarrow> ref \<Rightarrow> bool) \<Rightarrow> provider \<Rightarrow> 'z selectors_scheme \<Rightarrow> bool" where
  "areBlocksDifferent isShallowEqual this s =
     (if areAnyInnerBlocksControlled s
      then \<not> isShallowEqual (getBlocks s) (blocks this)
      else getBlocks s \<noteq> blocks this)"

text \<open>
  Lines 110 to 162: one notification of the store. The result is the instance after the
  callback and the handler calls it made.
\<close>

definition changeObserver ::
  "(ref \<Rightarrow> ref \<Rightarrow> bool) \<Rightarrow> provider \<Rightarrow> 'z selectors_scheme \<Rightarrow> provider \<times> effect list" where
  "changeObserver isShallowEqual this s =
     (let newBlocks = getBlocks s;
          newIsPersistent = isLastBlockChangePersistent s;
          different = areBlocksDifferent isShallowEqual this s
      in
        if different \<and>
           (isSyncingIncomingValue this \<noteq> None \<or> unstableIsLastBlockChangeIgnored s)
        then
          (this\<lparr>isSyncingIncomingValue := None,
                blocks := newBlocks,
                isPersistent := newIsPersistent\<rparr>, [])
        else
          let didPersistenceChange =
                previousAreBlocksDifferent this \<and> \<not> different \<and>
                newIsPersistent \<and> \<not> isPersistent this
          in
            if different \<or> didPersistenceChange then
              let this1 =
                    (if different
                     then this\<lparr>isSyncingOutcomingValue :=
                                 isSyncingOutcomingValue this @ [newBlocks]\<rparr>
                     else this);
                  this2 = this1\<lparr>blocks := newBlocks, isPersistent := newIsPersistent\<rparr>;
                  call =
                    (if newIsPersistent
                     then OnChange newBlocks (getSelectionStart s) (getSelectionEnd s)
                     else OnInput newBlocks (getSelectionStart s) (getSelectionEnd s))
              in (this2\<lparr>previousAreBlocksDifferent := different\<rparr>, [call])
            else (this\<lparr>previousAreBlocksDifferent := different\<rparr>, []))"

subsection \<open>The value prop (lines 49 to 71 of \<^verbatim>\<open>componentDidUpdate\<close>)\<close>

text \<open>lodash's \<^verbatim>\<open>last\<close>: the last element of an array, \<^verbatim>\<open>undefined\<close> for an empty one.\<close>

definition lodash_last :: "ref list \<Rightarrow> ref option" where
  "lodash_last xs = (if xs = [] then None else Some (last xs))"

text \<open>
  What \<^verbatim>\<open>componentDidUpdate\<close> does about the value prop: the assignments to the instance and,
  in program order, the actions it dispatches through \<^verbatim>\<open>resetBlocks\<close> and
  \<^verbatim>\<open>resetSelection\<close>. All assignments precede the first dispatch, and nothing is read from
  the instance after it. The test \<^verbatim>\<open>selectionStart && selectionEnd\<close> holds when both props
  are objects.
\<close>

definition syncValue :: "props \<Rightarrow> props \<Rightarrow> provider \<Rightarrow> provider \<times> action list" where
  "syncValue p prevProps this =
     (if value_prop p \<in> set (isSyncingOutcomingValue this) then
        (if lodash_last (isSyncingOutcomingValue this) = Some (value_prop p)
         then (this\<lparr>isSyncingOutcomingValue := []\<rparr>, [])
         else (this, []))
      else if value_prop p \<noteq> value_prop prevProps then
        (this\<lparr>isSyncingOutcomingValue := [],
              isSyncingIncomingValue := Some (value_prop p)\<rparr>,
         ResetBlocks (value_prop p) #
           (case selectionStart p of
              Some a \<Rightarrow>
                (case selectionEnd p of Some b \<Rightarrow> [ResetSelection a b] | None \<Rightarrow> [])
            | None \<Rightarrow> []))
      else (this, []))"

subsection \<open>The component in its environment\<close>

text \<open>
  The instance, the state of the \<^verbatim>\<open>core/block-editor\<close> store of every registry, and
  everything the component has done so far.
\<close>

record 'z system =
  inst :: provider
  stores :: "ref \<Rightarrow> 'z selectors_scheme"
  trace :: "effect list"

text \<open>
  Modelled from the spec: the notification of the store's subscribers, which belongs to
  \<^verbatim>\<open>@wordpress/data\<close> and not to this component. A subscriber is notified synchronously, in the
  same turn as the change (sections 5 and 6 of the spec). The only subscriber of interest is
  the callback of this instance, registered at the registry that \<open>unsubscribe\<close> records.
\<close>

definition notify :: "(ref \<Rightarrow> ref \<Rightarrow> bool) \<Rightarrow> ref \<Rightarrow> 'z system \<Rightarrow> 'z system" where
  "notify isShallowEqual r sys =
     (if unsubscribe (inst sys) = Some r
      then (case changeObserver isShallowEqual (inst sys) (stores sys r) of
              (this', calls) \<Rightarrow> sys\<lparr>inst := this', trace := trace sys @ calls\<rparr>)
      else sys)"

text \<open>
  Modelled from the spec: what calling a dispatch prop does (\<^verbatim>\<open>updateSettings\<close>,
  \<^verbatim>\<open>resetBlocks\<close>, \<^verbatim>\<open>resetSelection\<close>, bound by \<^verbatim>\<open>withDispatch\<close> to the store of the
  registry in the props). The store's reducer is a parameter: it maps an action and a store
  state to the next state. The store then notifies.
\<close>

definition dispatch ::
  "(action \<Rightarrow> 'z selectors_scheme \<Rightarrow> 'z selectors_scheme) \<Rightarrow> (ref \<Rightarrow> ref \<Rightarrow> bool) \<Rightarrow>
     ref \<Rightarrow> 'z system \<Rightarrow> action \<Rightarrow> 'z system" where
  "dispatch reducer isShallowEqual r sys a =
     notify isShallowEqual r
       (sys\<lparr>stores := (stores sys)(r := reducer a (stores sys r)),
            trace := trace sys @ [Dispatch a]\<rparr>)"

text \<open>Lines 92 to 163, the callback itself being \<open>changeObserver\<close>.\<close>

definition attachChangeObserver :: "ref \<Rightarrow> 'z system \<Rightarrow> 'z system" where
  "attachChangeObserver r sys =
     (let released =
            (case unsubscribe (inst sys) of
               Some r' \<Rightarrow> [Unsubscribe r']
             | None \<Rightarrow> [])
      in sys\<lparr>inst := (inst sys)\<lparr>blocks := getBlocks (stores sys r),
                                 isPersistent := isLastBlockChangePersistent (stores sys r),
                                 previousAreBlocksDifferent := False,
                                 unsubscribe := Some r\<rparr>,
              trace := trace sys @ released @ [Subscribe r]\<rparr>)"

text \<open>Lines 22 to 27.\<close>

definition componentDidMount ::
  "(action \<Rightarrow> 'z selectors_scheme \<Rightarrow> 'z selectors_scheme) \<Rightarrow> (ref \<Rightarrow> ref \<Rightarrow> bool) \<Rightarrow>
     props \<Rightarrow> 'z system \<Rightarrow> 'z system" where
  "componentDidMount reducer isShallowEqual p sys =
     (let sys1 = dispatch reducer isShallowEqual (registry p) sys (UpdateSettings (settings p));
          sys2 = dispatch reducer isShallowEqual (registry p) sys1 (ResetBlocks (value_prop p));
          sys3 = attachChangeObserver (registry p) sys2
      in sys3\<lparr>inst := (inst sys3)\<lparr>isSyncingOutcomingValue := []\<rparr>\<rparr>)"

text \<open>
  Lines 29 to 72. The methods \<^verbatim>\<open>componentWillUnmount\<close> and \<^verbatim>\<open>render\<close> are left out: no
  property below concerns them.
\<close>

definition componentDidUpdate ::
  "(action \<Rightarrow> 'z selectors_scheme \<Rightarrow> 'z selectors_scheme) \<Rightarrow> (ref \<Rightarrow> ref \<Rightarrow> bool) \<Rightarrow>
     props \<Rightarrow> props \<Rightarrow> 'z system \<Rightarrow> 'z system" where
  "componentDidUpdate reducer isShallowEqual p prevProps sys =
     (let sys1 =
            (if settings p \<noteq> settings prevProps
             then dispatch reducer isShallowEqual (registry p) sys (UpdateSettings (settings p))
             else sys);
          sys2 =
            (if registry p \<noteq> registry prevProps
             then attachChangeObserver (registry p) sys1
             else sys1)
      in case syncValue p prevProps (inst sys2) of
           (this', actions) \<Rightarrow>
             foldl (dispatch reducer isShallowEqual (registry p))
               (sys2\<lparr>inst := this'\<rparr>) actions)"

text \<open>Recognisers for the effects the properties count.\<close>

fun isResetBlocks :: "effect \<Rightarrow> bool" where
  "isResetBlocks (Dispatch (ResetBlocks v)) = True"
| "isResetBlocks e = False"

fun isEmission :: "effect \<Rightarrow> bool" where
  "isEmission (OnChange v a b) = True"
| "isEmission (OnInput v a b) = True"
| "isEmission e = False"

subsection \<open>What two arrays of blocks hold\<close>

text \<open>
  A reference does not show what an object holds. A heap gives, for an array of blocks, the
  references of its elements in order, and for a block object its structure (\<open>shape\<close>): the name of
  the block and the structures of its inner blocks.
\<close>

datatype block = Block string "block list"

record heap =
  elements :: "ref \<Rightarrow> ref list"
  shape :: "ref \<Rightarrow> block"

text \<open>
  The comparison that \<^verbatim>\<open>isShallowEqual\<close> of the package \<^verbatim>\<open>@wordpress/is-shallow-equal\<close> makes
  for two arrays (its \<^verbatim>\<open>isShallowEqualArrays\<close>): the same array, or two arrays of the same
  length whose elements are identical (\<^verbatim>\<open>===\<close>) at every index. It looks one level deep. The
  package is not part of the component; the definition follows what the package documents,
  not the spec, which calls the comparison deep.
\<close>

definition isShallowEqualArrays :: "heap \<Rightarrow> ref \<Rightarrow> ref \<Rightarrow> bool" where
  "isShallowEqualArrays h a b = (a = b \<or> elements h a = elements h b)"

text \<open>
  Modelled from the spec: structural (deep) equality of two block trees, the comparison that
  section 4.2 of the spec names. Two arrays are equal when their blocks have the same
  structure, index by index, whichever objects hold it.
\<close>

definition deepEqual :: "heap \<Rightarrow> ref \<Rightarrow> ref \<Rightarrow> bool" where
  "deepEqual h a b =
     (map (shape h) (elements h a) = map (shape h) (elements h b))"

subsection \<open>Example states\<close>

text \<open>
  A heap for the examples. The arrays 1 and 2 hold one paragraph each, the same structure in
  two different block objects (10 and 11). The arrays 3 and 4 are distinct arrays of the same
  two block objects.
\<close>

definition exampleHeap :: heap where
  "exampleHeap =
     \<lparr>elements =
        (\<lambda>a. if a = 1 then [10] else if a = 2 then [11]
             else if a = 3 \<or> a = 4 then [10, 12] else []),
      shape =
        (\<lambda>b. if b = 12 then Block ''core/image'' [] else Block ''core/paragraph'' [])\<rparr>"

text \<open>
  A comparison for the examples: \<open>exampleItems\<close> gives the blocks an array holds, and two
  arrays compare equal when they hold the same blocks. The arrays 1 and 2 are distinct objects
  with the same two blocks.
\<close>

definition exampleItems :: "ref \<Rightarrow> ref list" where
  "exampleItems a = (if a = 1 \<or> a = 2 then [40, 41] else [a])"

definition exampleEqual :: "ref \<Rightarrow> ref \<Rightarrow> bool" where
  "exampleEqual a b = (exampleItems a = exampleItems b)"

text \<open>An instance that last observed the blocks 0, with nothing pending in either direction.\<close>

definition idle :: provider where
  "idle = \<lparr>isSyncingOutcomingValue = [], isSyncingIncomingValue = None,
            unsubscribe = Some 0, blocks = 0, isPersistent = False,
            previousAreBlocksDifferent = False\<rparr>"

text \<open>The same instance after an inbound reset to the value 1 has set the marker.\<close>

definition armed :: provider where
  "armed = idle\<lparr>isSyncingIncomingValue := Some 1\<rparr>"

text \<open>A store whose blocks are \<open>b\<close> and whose last change has the given persistence.\<close>

definition edited :: "ref \<Rightarrow> bool \<Rightarrow> selectors" where
  "edited b persistent =
     \<lparr>getBlocks = b, getSelectionStart = Some 20, getSelectionEnd = Some 21,
      areAnyInnerBlocksControlled = False, isLastBlockChangePersistent = persistent,
      unstableIsLastBlockChangeIgnored = False\<rparr>"

definition hostProps :: "ref \<Rightarrow> ref option \<Rightarrow> ref option \<Rightarrow> props" where
  "hostProps v a b =
     \<lparr>settings = 30, value_prop = v, selectionStart = a, selectionEnd = b, registry = 0\<rparr>"

text \<open>A reducer that builds an array of its own (\<open>v + 100\<close>) from the blocks it is given.\<close>

definition exampleReducer :: "action \<Rightarrow> selectors \<Rightarrow> selectors" where
  "exampleReducer a s =
     (case a of
        UpdateSettings c \<Rightarrow> s
      | ResetBlocks v \<Rightarrow> s\<lparr>getBlocks := v + 100, isLastBlockChangePersistent := True\<rparr>
      | ResetSelection x y \<Rightarrow> s\<lparr>getSelectionStart := Some x, getSelectionEnd := Some y\<rparr>)"

text \<open>A system whose component has not been mounted yet.\<close>

definition unmounted :: "unit system" where
  "unmounted =
     \<lparr>inst = idle\<lparr>unsubscribe := None\<rparr>, stores = (\<lambda>r. edited 0 False), trace = []\<rparr>"

section \<open>What a value-prop update dispatches\<close>

text \<open>
  The change observer only calls the host's handlers, so the \<^verbatim>\<open>resetBlocks\<close> calls in the
  trace of an update are exactly those of \<open>syncValue\<close>, whatever the store and its
  notifications do in between.
\<close>

lemma changeObserver_calls:
  "e \<in> set (snd (changeObserver isShallowEqual this s)) \<Longrightarrow> isEmission e"
  by (auto simp add: changeObserver_def Let_def split: if_splits)

lemma isEmission_not_reset: "isEmission e \<Longrightarrow> \<not> isResetBlocks e"
  by (cases e) auto

lemma notify_resets:
  "filter isResetBlocks (trace (notify isShallowEqual r sys)) = filter isResetBlocks (trace sys)"
proof (cases "unsubscribe (inst sys) = Some r")
  case True
  obtain this' calls where
    obs: "changeObserver isShallowEqual (inst sys) (stores sys r) = (this', calls)"
    by (cases "changeObserver isShallowEqual (inst sys) (stores sys r)")
  have "\<forall>e \<in> set calls. \<not> isResetBlocks e"
    using changeObserver_calls [of _ isShallowEqual "inst sys" "stores sys r"]
      isEmission_not_reset by (auto simp add: obs)
  then have "filter isResetBlocks calls = []"
    by (simp add: filter_empty_conv)
  then show ?thesis
    using True by (simp add: notify_def obs)
next
  case False
  then show ?thesis by (simp add: notify_def)
qed

lemma dispatch_resets:
  "filter isResetBlocks (trace (dispatch reducer isShallowEqual r sys a)) =
     filter isResetBlocks (trace sys) @ filter isResetBlocks [Dispatch a]"
  by (simp add: dispatch_def notify_resets)

lemma foldl_dispatch_resets:
  "filter isResetBlocks (trace (foldl (dispatch reducer isShallowEqual r) sys actions)) =
     filter isResetBlocks (trace sys) @ filter isResetBlocks (map Dispatch actions)"
proof (induction actions arbitrary: sys)
  case Nil
  then show ?case by simp
next
  case (Cons a actions)
  show ?case
    by (simp only: foldl_Cons Cons.IH dispatch_resets list.map filter_append append_assoc
        append_Cons append_Nil filter.simps) simp
qed

lemma componentDidUpdate_resets:
  assumes "settings p = settings prevProps" and "registry p = registry prevProps"
  shows "filter isResetBlocks (trace (componentDidUpdate reducer isShallowEqual p prevProps sys)) =
           filter isResetBlocks (trace sys) @
           filter isResetBlocks (map Dispatch (snd (syncValue p prevProps (inst sys))))"
  using assms
  by (simp add: componentDidUpdate_def foldl_dispatch_resets split: prod.split)

section \<open>The inbound reset controller\<close>

text \<open>
  C1. A value-prop update whose new value is not in the queue of outbound values and differs
  from the previous value empties the queue, sets the incoming marker to the new value, and
  dispatches \<^verbatim>\<open>resetBlocks\<close> exactly once, with the new value.
\<close>

theorem genuine_change:
  assumes "value_prop p \<notin> set (isSyncingOutcomingValue this)"
    and "value_prop p \<noteq> value_prop prevProps"
  shows "isSyncingOutcomingValue (fst (syncValue p prevProps this)) = [] \<and>
         isSyncingIncomingValue (fst (syncValue p prevProps this)) = Some (value_prop p) \<and>
         filter isResetBlocks (map Dispatch (snd (syncValue p prevProps this))) =
           [Dispatch (ResetBlocks (value_prop p))]"
  using assms by (simp add: syncValue_def split: option.split)

theorem genuine_change_witness:
  "value_prop (hostProps 5 None None) \<notin> set (isSyncingOutcomingValue (idle\<lparr>isSyncingOutcomingValue := [3, 4]\<rparr>)) \<and>
   value_prop (hostProps 5 None None) \<noteq> value_prop (hostProps 4 None None) \<and>
   isSyncingOutcomingValue
     (fst (syncValue (hostProps 5 None None) (hostProps 4 None None)
        (idle\<lparr>isSyncingOutcomingValue := [3, 4]\<rparr>))) = [] \<and>
   isSyncingIncomingValue
     (fst (syncValue (hostProps 5 None None) (hostProps 4 None None)
        (idle\<lparr>isSyncingOutcomingValue := [3, 4]\<rparr>))) = Some 5 \<and>
   filter isResetBlocks
     (map Dispatch (snd (syncValue (hostProps 5 None None) (hostProps 4 None None)
        (idle\<lparr>isSyncingOutcomingValue := [3, 4]\<rparr>)))) = [Dispatch (ResetBlocks 5)]"
  using genuine_change [of "hostProps 5 None None" "idle\<lparr>isSyncingOutcomingValue := [3, 4]\<rparr>"
      "hostProps 4 None None"]
  by (simp add: hostProps_def idle_def)

text \<open>
  C2. A value-prop update whose new value is in the queue of outbound values dispatches
  nothing, so no \<^verbatim>\<open>resetBlocks\<close>. If the value is the last entry of the queue, the queue is
  emptied and nothing else changes; if it is not the last entry (it only equals older ones),
  the instance, queue included, is unchanged.
\<close>

theorem outbound_echo:
  assumes "value_prop p \<in> set (isSyncingOutcomingValue this)"
  shows "snd (syncValue p prevProps this) = [] \<and>
         (last (isSyncingOutcomingValue this) = value_prop p \<longrightarrow>
            fst (syncValue p prevProps this) = this\<lparr>isSyncingOutcomingValue := []\<rparr>) \<and>
         (last (isSyncingOutcomingValue this) \<noteq> value_prop p \<longrightarrow>
            fst (syncValue p prevProps this) = this)"
  using assms by (auto simp add: syncValue_def lodash_last_def)

theorem outbound_echo_witness:
  "value_prop (hostProps 4 None None) \<in> set (isSyncingOutcomingValue (idle\<lparr>isSyncingOutcomingValue := [3, 4]\<rparr>)) \<and>
   syncValue (hostProps 4 None None) (hostProps 9 None None)
       (idle\<lparr>isSyncingOutcomingValue := [3, 4]\<rparr>) = (idle, []) \<and>
   value_prop (hostProps 3 None None) \<in> set (isSyncingOutcomingValue (idle\<lparr>isSyncingOutcomingValue := [3, 4]\<rparr>)) \<and>
   syncValue (hostProps 3 None None) (hostProps 9 None None)
       (idle\<lparr>isSyncingOutcomingValue := [3, 4]\<rparr>) =
     (idle\<lparr>isSyncingOutcomingValue := [3, 4]\<rparr>, [])"
  using outbound_echo [of "hostProps 4 None None" "idle\<lparr>isSyncingOutcomingValue := [3, 4]\<rparr>"
      "hostProps 9 None None"]
    outbound_echo [of "hostProps 3 None None" "idle\<lparr>isSyncingOutcomingValue := [3, 4]\<rparr>"
      "hostProps 9 None None"]
  by (simp add: hostProps_def idle_def prod_eq_iff)

text \<open>
  C9, as the code has it. The reset of a value-prop update dispatches \<^verbatim>\<open>resetSelection\<close>
  with a pair exactly when that pair is the \<^verbatim>\<open>selectionStart\<close> and \<^verbatim>\<open>selectionEnd\<close> of the
  props, both present. With one of the two missing nothing is dispatched for the selection,
  and the update goes on as with none: the model has no failing branch because the code has
  none. The reset that mounting makes dispatches no \<^verbatim>\<open>resetSelection\<close> at all, whatever the
  props hold.
\<close>

theorem selection_needs_both:
  "((ResetSelection a b \<in> set (snd (syncValue p prevProps this))) =
      (value_prop p \<notin> set (isSyncingOutcomingValue this) \<and>
       value_prop p \<noteq> value_prop prevProps \<and>
       selectionStart p = Some a \<and> selectionEnd p = Some b)) \<and>
   (unsubscribe (inst sys) = None \<longrightarrow>
      (Dispatch (ResetSelection a b) \<in>
          set (trace (componentDidMount reducer isShallowEqual p sys))) =
        (Dispatch (ResetSelection a b) \<in> set (trace sys)))"
proof -
  have update:
    "(ResetSelection a b \<in> set (snd (syncValue p prevProps this))) =
       (value_prop p \<notin> set (isSyncingOutcomingValue this) \<and>
        value_prop p \<noteq> value_prop prevProps \<and>
        selectionStart p = Some a \<and> selectionEnd p = Some b)"
    by (auto simp add: syncValue_def split: option.splits)
  have mount:
    "unsubscribe (inst sys) = None \<Longrightarrow>
       (Dispatch (ResetSelection a b) \<in>
           set (trace (componentDidMount reducer isShallowEqual p sys))) =
         (Dispatch (ResetSelection a b) \<in> set (trace sys))"
    by (simp add: componentDidMount_def dispatch_def notify_def attachChangeObserver_def
        Let_def)
  show ?thesis
    using update mount by blast
qed

theorem selection_needs_both_witness:
  "snd (syncValue (hostProps 5 (Some 20) (Some 21)) (hostProps 4 None None) idle) =
     [ResetBlocks 5, ResetSelection 20 21] \<and>
   snd (syncValue (hostProps 5 (Some 20) None) (hostProps 4 None None) idle) = [ResetBlocks 5] \<and>
   snd (syncValue (hostProps 5 None (Some 21)) (hostProps 4 None None) idle) = [ResetBlocks 5] \<and>
   ResetSelection 20 21 \<in>
     set (snd (syncValue (hostProps 5 (Some 20) (Some 21)) (hostProps 4 None None) idle)) \<and>
   ResetSelection 20 21 \<notin>
     set (snd (syncValue (hostProps 5 (Some 20) None) (hostProps 4 None None) idle)) \<and>
   unsubscribe (inst unmounted) = None \<and>
   Dispatch (ResetSelection 20 21) \<notin>
     set (trace (componentDidMount exampleReducer exampleEqual
       (hostProps 5 (Some 20) None) unmounted))"
  using selection_needs_both [of 20 21 "hostProps 5 (Some 20) (Some 21)" "hostProps 4 None None"
      idle unmounted exampleReducer exampleEqual]
    selection_needs_both [of 20 21 "hostProps 5 (Some 20) None" "hostProps 4 None None" idle
      unmounted exampleReducer exampleEqual]
  by (simp add: syncValue_def hostProps_def idle_def unmounted_def)

text \<open>
  C9 as stated fails for the reset that mounting makes: with both ends of the selection in
  the props, \<^verbatim>\<open>componentDidMount\<close> dispatches \<^verbatim>\<open>resetBlocks\<close> and no \<^verbatim>\<open>resetSelection\<close>.
\<close>

theorem selection_needs_both_counterexample:
  "selectionStart (hostProps 5 (Some 20) (Some 21)) = Some 20 \<and>
   selectionEnd (hostProps 5 (Some 20) (Some 21)) = Some 21 \<and>
   Dispatch (ResetBlocks 5) \<in>
     set (trace (componentDidMount exampleReducer exampleEqual
       (hostProps 5 (Some 20) (Some 21)) unmounted)) \<and>
   Dispatch (ResetSelection 20 21) \<notin>
     set (trace (componentDidMount exampleReducer exampleEqual
       (hostProps 5 (Some 20) (Some 21)) unmounted))"
  by (simp add: componentDidMount_def dispatch_def notify_def attachChangeObserver_def
      Let_def unmounted_def idle_def hostProps_def)

section \<open>The change observer\<close>

text \<open>
  C3. A notification that finds the blocks different while the incoming marker is set, or
  while the store reports the last change as ignored, clears the marker and takes the
  store's blocks and persistence flag as its snapshot. It calls neither handler, and every
  other field, the queue of outbound values among them, stays as it was.
\<close>

theorem suppressed_sync:
  assumes "areBlocksDifferent isShallowEqual this s"
    and "isSyncingIncomingValue this \<noteq> None \<or> unstableIsLastBlockChangeIgnored s"
  shows "changeObserver isShallowEqual this s =
           (this\<lparr>isSyncingIncomingValue := None,
                 blocks := getBlocks s,
                 isPersistent := isLastBlockChangePersistent s\<rparr>, [])"
  using assms by (simp add: changeObserver_def Let_def)

theorem suppressed_sync_witness:
  "areBlocksDifferent exampleEqual armed (edited 1 True) \<and>
   isSyncingIncomingValue armed \<noteq> None \<and>
   changeObserver exampleEqual armed (edited 1 True) =
     (idle\<lparr>blocks := 1, isPersistent := True\<rparr>, [])"
  using suppressed_sync [of exampleEqual armed "edited 1 True"]
  by (simp add: areBlocksDifferent_def armed_def idle_def edited_def)

text \<open>
  C4, as the code has it. With the comparison of the package for \<^verbatim>\<open>isShallowEqual\<close>, the
  difference test of a notification is a one-level comparison when the store reports
  controlled inner blocks: the blocks are different when the two arrays are not the same
  object and do not hold identical elements index by index. Otherwise the test is inequality
  of the two references. In both cases two arrays that differ in structure are different.
\<close>

theorem areBlocksDifferent_test:
  "(areAnyInnerBlocksControlled s \<longrightarrow>
      areBlocksDifferent (isShallowEqualArrays h) this s =
        (getBlocks s \<noteq> blocks this \<and> elements h (getBlocks s) \<noteq> elements h (blocks this))) \<and>
   (\<not> areAnyInnerBlocksControlled s \<longrightarrow>
      areBlocksDifferent (isShallowEqualArrays h) this s = (getBlocks s \<noteq> blocks this)) \<and>
   (\<not> deepEqual h (getBlocks s) (blocks this) \<longrightarrow>
      areBlocksDifferent (isShallowEqualArrays h) this s)"
  by (auto simp add: areBlocksDifferent_def isShallowEqualArrays_def deepEqual_def)

theorem areBlocksDifferent_test_witness:
  "areAnyInnerBlocksControlled ((edited 4 False)\<lparr>areAnyInnerBlocksControlled := True\<rparr>) \<and>
   \<not> areBlocksDifferent (isShallowEqualArrays exampleHeap) (idle\<lparr>blocks := 3\<rparr>)
       ((edited 4 False)\<lparr>areAnyInnerBlocksControlled := True\<rparr>) \<and>
   \<not> areAnyInnerBlocksControlled (edited 4 False) \<and>
   areBlocksDifferent (isShallowEqualArrays exampleHeap) (idle\<lparr>blocks := 3\<rparr>) (edited 4 False) \<and>
   \<not> deepEqual exampleHeap
       (getBlocks ((edited 3 False)\<lparr>areAnyInnerBlocksControlled := True\<rparr>))
       (blocks (idle\<lparr>blocks := 1\<rparr>)) \<and>
   areBlocksDifferent (isShallowEqualArrays exampleHeap) (idle\<lparr>blocks := 1\<rparr>)
     ((edited 3 False)\<lparr>areAnyInnerBlocksControlled := True\<rparr>)"
  using areBlocksDifferent_test [of "(edited 4 False)\<lparr>areAnyInnerBlocksControlled := True\<rparr>"
      exampleHeap "idle\<lparr>blocks := 3\<rparr>"]
    areBlocksDifferent_test [of "edited 4 False" exampleHeap "idle\<lparr>blocks := 3\<rparr>"]
    areBlocksDifferent_test [of "(edited 3 False)\<lparr>areAnyInnerBlocksControlled := True\<rparr>"
      exampleHeap "idle\<lparr>blocks := 1\<rparr>"]
  by (simp add: edited_def idle_def exampleHeap_def deepEqual_def)

text \<open>
  C4 as stated fails with controlled inner blocks: the arrays 1 and 2 hold blocks of the same
  structure in different objects, so they are deeply equal, and the test finds them
  different.
\<close>

theorem areBlocksDifferent_test_counterexample:
  "areAnyInnerBlocksControlled ((edited 2 False)\<lparr>areAnyInnerBlocksControlled := True\<rparr>) \<and>
   deepEqual exampleHeap
       (getBlocks ((edited 2 False)\<lparr>areAnyInnerBlocksControlled := True\<rparr>))
       (blocks (idle\<lparr>blocks := 1\<rparr>)) \<and>
   areBlocksDifferent (isShallowEqualArrays exampleHeap) (idle\<lparr>blocks := 1\<rparr>)
     ((edited 2 False)\<lparr>areAnyInnerBlocksControlled := True\<rparr>)"
  by (simp add: areBlocksDifferent_def isShallowEqualArrays_def deepEqual_def edited_def
      idle_def exampleHeap_def)

text \<open>
  C5, as the code has it. A notification that does not take the suppressed branch records in
  \<^verbatim>\<open>previousAreBlocksDifferent\<close> the outcome of its difference test, whether it calls a
  handler or not. A notification that takes the suppressed branch returns before that
  assignment and leaves \<^verbatim>\<open>previousAreBlocksDifferent\<close> as it found it.
\<close>

theorem recorded_difference:
  "(\<not> (areBlocksDifferent isShallowEqual this s \<and>
        (isSyncingIncomingValue this \<noteq> None \<or> unstableIsLastBlockChangeIgnored s)) \<longrightarrow>
      previousAreBlocksDifferent (fst (changeObserver isShallowEqual this s)) =
        areBlocksDifferent isShallowEqual this s) \<and>
   (areBlocksDifferent isShallowEqual this s \<and>
        (isSyncingIncomingValue this \<noteq> None \<or> unstableIsLastBlockChangeIgnored s) \<longrightarrow>
      previousAreBlocksDifferent (fst (changeObserver isShallowEqual this s)) =
        previousAreBlocksDifferent this)"
  by (auto simp add: changeObserver_def Let_def)

theorem recorded_difference_witness:
  "\<not> (areBlocksDifferent exampleEqual idle (edited 1 False) \<and>
       (isSyncingIncomingValue idle \<noteq> None \<or>
        unstableIsLastBlockChangeIgnored (edited 1 False))) \<and>
   areBlocksDifferent exampleEqual idle (edited 1 False) \<and>
   previousAreBlocksDifferent (fst (changeObserver exampleEqual idle (edited 1 False))) \<and>
   areBlocksDifferent exampleEqual (armed\<lparr>previousAreBlocksDifferent := True\<rparr>) (edited 1 False) \<and>
   isSyncingIncomingValue (armed\<lparr>previousAreBlocksDifferent := True\<rparr>) \<noteq> None \<and>
   previousAreBlocksDifferent
     (fst (changeObserver exampleEqual (armed\<lparr>previousAreBlocksDifferent := True\<rparr>)
        (edited 1 False)))"
  using recorded_difference [of exampleEqual idle "edited 1 False"]
    recorded_difference [of exampleEqual "armed\<lparr>previousAreBlocksDifferent := True\<rparr>"
      "edited 1 False"]
  by (simp add: areBlocksDifferent_def armed_def idle_def edited_def)

text \<open>
  C5 as stated fails in the suppressed branch: with the marker set and
  \<^verbatim>\<open>previousAreBlocksDifferent\<close> false, a notification that finds the blocks different
  leaves \<^verbatim>\<open>previousAreBlocksDifferent\<close> false.
\<close>

theorem recorded_difference_counterexample:
  "areBlocksDifferent exampleEqual armed (edited 1 False) \<and>
   \<not> previousAreBlocksDifferent (fst (changeObserver exampleEqual armed (edited 1 False)))"
  by (simp add: changeObserver_def Let_def areBlocksDifferent_def armed_def idle_def edited_def)

text \<open>
  C6, as the code has it. Take two notifications in a row. The first finds the blocks
  different with the persistence flag false and is not suppressed (the marker is not set and
  the store does not report the change as ignored); the second finds the blocks not different
  and the persistence flag true. Then the first calls \<^verbatim>\<open>onInput\<close> once with the store's
  blocks, and the second calls \<^verbatim>\<open>onChange\<close> once, and not \<^verbatim>\<open>onInput\<close>, with the blocks the
  store holds then. Those are the blocks of the first call as far as the difference test of
  the second notification tells: the same reference when no inner blocks are controlled.
  The second notification adds nothing to the queue of outbound values.
\<close>

theorem persistence_promotion:
  assumes "areBlocksDifferent isShallowEqual this s1"
    and "\<not> isLastBlockChangePersistent s1"
    and "isSyncingIncomingValue this = None"
    and "\<not> unstableIsLastBlockChangeIgnored s1"
    and "\<not> areBlocksDifferent isShallowEqual (fst (changeObserver isShallowEqual this s1)) s2"
    and "isLastBlockChangePersistent s2"
  shows "snd (changeObserver isShallowEqual this s1) =
           [OnInput (getBlocks s1) (getSelectionStart s1) (getSelectionEnd s1)] \<and>
         snd (changeObserver isShallowEqual (fst (changeObserver isShallowEqual this s1)) s2) =
           [OnChange (getBlocks s2) (getSelectionStart s2) (getSelectionEnd s2)] \<and>
         (if areAnyInnerBlocksControlled s2
          then isShallowEqual (getBlocks s2) (getBlocks s1)
          else getBlocks s2 = getBlocks s1) \<and>
         isSyncingOutcomingValue
             (fst (changeObserver isShallowEqual (fst (changeObserver isShallowEqual this s1)) s2)) =
           isSyncingOutcomingValue this @ [getBlocks s1]"
proof -
  let ?this1 = "this\<lparr>isSyncingOutcomingValue := isSyncingOutcomingValue this @ [getBlocks s1],
                      blocks := getBlocks s1, isPersistent := False,
                      previousAreBlocksDifferent := True\<rparr>"
  have first: "changeObserver isShallowEqual this s1 =
      (?this1, [OnInput (getBlocks s1) (getSelectionStart s1) (getSelectionEnd s1)])"
    using assms(1-4) by (simp add: changeObserver_def Let_def)
  have same: "\<not> areBlocksDifferent isShallowEqual ?this1 s2"
    using assms(5) by (simp add: first)
  have second: "changeObserver isShallowEqual ?this1 s2 =
      (?this1\<lparr>blocks := getBlocks s2, isPersistent := True,
               previousAreBlocksDifferent := False\<rparr>,
       [OnChange (getBlocks s2) (getSelectionStart s2) (getSelectionEnd s2)])"
    using same assms(6) by (simp add: changeObserver_def Let_def)
  have tree: "if areAnyInnerBlocksControlled s2
      then isShallowEqual (getBlocks s2) (getBlocks s1)
      else getBlocks s2 = getBlocks s1"
    using same by (simp add: areBlocksDifferent_def split: if_splits)
  show ?thesis
    using tree by (simp add: first second)
qed

theorem persistence_promotion_witness:
  "areBlocksDifferent exampleEqual idle (edited 1 False) \<and>
   \<not> isLastBlockChangePersistent (edited 1 False) \<and>
   isSyncingIncomingValue idle = None \<and>
   \<not> unstableIsLastBlockChangeIgnored (edited 1 False) \<and>
   \<not> areBlocksDifferent exampleEqual
        (fst (changeObserver exampleEqual idle (edited 1 False))) (edited 1 True) \<and>
   isLastBlockChangePersistent (edited 1 True) \<and>
   snd (changeObserver exampleEqual idle (edited 1 False)) = [OnInput 1 (Some 20) (Some 21)] \<and>
   snd (changeObserver exampleEqual
        (fst (changeObserver exampleEqual idle (edited 1 False))) (edited 1 True)) =
     [OnChange 1 (Some 20) (Some 21)] \<and>
   isSyncingOutcomingValue
     (fst (changeObserver exampleEqual
        (fst (changeObserver exampleEqual idle (edited 1 False))) (edited 1 True))) = [1]"
  using persistence_promotion [of exampleEqual idle "edited 1 False" "edited 1 True"]
  by (simp add: changeObserver_def Let_def areBlocksDifferent_def idle_def edited_def)

text \<open>
  C6 as stated fails when the first notification is suppressed. With the marker set and
  \<^verbatim>\<open>previousAreBlocksDifferent\<close> false, the first notification finds the blocks different
  with the persistence flag false and calls no handler; the second finds the same blocks with
  the persistence flag true and calls no handler either.
\<close>

theorem persistence_promotion_counterexample:
  "areBlocksDifferent exampleEqual armed (edited 1 False) \<and>
   \<not> isLastBlockChangePersistent (edited 1 False) \<and>
   \<not> areBlocksDifferent exampleEqual
        (fst (changeObserver exampleEqual armed (edited 1 False))) (edited 1 True) \<and>
   isLastBlockChangePersistent (edited 1 True) \<and>
   snd (changeObserver exampleEqual
        (fst (changeObserver exampleEqual armed (edited 1 False))) (edited 1 True)) = []"
  by (simp add: changeObserver_def Let_def areBlocksDifferent_def armed_def idle_def edited_def)

text \<open>
  C7, as the code has it. The marker is one field, so at most one value is marked at a time.
  A notification that runs while the marker is set and finds the blocks different clears it.
  A notification that finds the blocks not different leaves the marker as it is, set or not.
  An inbound reset overwrites the marker with its new value, whatever it held.
\<close>

theorem marker_cleared:
  "(isSyncingIncomingValue this \<noteq> None \<and> areBlocksDifferent isShallowEqual this s \<longrightarrow>
      isSyncingIncomingValue (fst (changeObserver isShallowEqual this s)) = None) \<and>
   (\<not> areBlocksDifferent isShallowEqual this s \<longrightarrow>
      isSyncingIncomingValue (fst (changeObserver isShallowEqual this s)) =
        isSyncingIncomingValue this) \<and>
   (value_prop p \<notin> set (isSyncingOutcomingValue this) \<and>
    value_prop p \<noteq> value_prop prevProps \<longrightarrow>
      isSyncingIncomingValue (fst (syncValue p prevProps this)) = Some (value_prop p))"
  by (auto simp add: changeObserver_def syncValue_def Let_def)

theorem marker_cleared_witness:
  "isSyncingIncomingValue armed \<noteq> None \<and>
   areBlocksDifferent exampleEqual armed (edited 1 True) \<and>
   isSyncingIncomingValue (fst (changeObserver exampleEqual armed (edited 1 True))) = None \<and>
   \<not> areBlocksDifferent exampleEqual armed (edited 0 True) \<and>
   isSyncingIncomingValue (fst (changeObserver exampleEqual armed (edited 0 True))) = Some 1 \<and>
   value_prop (hostProps 5 None None) \<notin> set (isSyncingOutcomingValue armed) \<and>
   value_prop (hostProps 5 None None) \<noteq> value_prop (hostProps 1 None None) \<and>
   isSyncingIncomingValue
     (fst (syncValue (hostProps 5 None None) (hostProps 1 None None) armed)) = Some 5"
  using marker_cleared [of armed exampleEqual "edited 1 True" "hostProps 5 None None"
      "hostProps 1 None None"]
    marker_cleared [of armed exampleEqual "edited 0 True" "hostProps 5 None None"
      "hostProps 1 None None"]
  by (simp add: areBlocksDifferent_def armed_def idle_def edited_def hostProps_def)

text \<open>
  C7 as stated fails for a notification that finds the blocks not different: the marker is
  set before it and still set after it.
\<close>

theorem marker_cleared_counterexample:
  "isSyncingIncomingValue armed \<noteq> None \<and>
   isSyncingIncomingValue (fst (changeObserver exampleEqual armed (edited 0 True))) \<noteq> None"
  by (simp add: changeObserver_def Let_def areBlocksDifferent_def armed_def idle_def edited_def)

text \<open>
  C8. A notification that finds the blocks not different, by the test that applies, and the
  persistence flag equal to the one last observed calls no handler and changes no field of
  the instance other than \<^verbatim>\<open>previousAreBlocksDifferent\<close>, which it sets to false. The queue
  of outbound values is among the unchanged fields.
\<close>

theorem noop_notification:
  assumes "\<not> areBlocksDifferent isShallowEqual this s"
    and "isLastBlockChangePersistent s = isPersistent this"
  shows "changeObserver isShallowEqual this s =
           (this\<lparr>previousAreBlocksDifferent := False\<rparr>, [])"
  using assms by (simp add: changeObserver_def Let_def)

theorem noop_notification_witness:
  "\<not> areBlocksDifferent exampleEqual (idle\<lparr>previousAreBlocksDifferent := True\<rparr>) (edited 0 False) \<and>
   isLastBlockChangePersistent (edited 0 False) =
     isPersistent (idle\<lparr>previousAreBlocksDifferent := True\<rparr>) \<and>
   changeObserver exampleEqual (idle\<lparr>previousAreBlocksDifferent := True\<rparr>) (edited 0 False) =
     (idle, [])"
  using noop_notification [of exampleEqual "idle\<lparr>previousAreBlocksDifferent := True\<rparr>"
      "edited 0 False"]
  by (simp add: areBlocksDifferent_def idle_def edited_def)

section \<open>Activation\<close>

text \<open>
  C10. Mounting an instance that has no subscription yet dispatches \<^verbatim>\<open>updateSettings\<close>, then
  \<^verbatim>\<open>resetBlocks\<close> with the value, and only then subscribes the change observer. The
  observer's first snapshot of the blocks and of the persistence flag is read from the store
  as the reset left it. Neither \<^verbatim>\<open>onChange\<close> nor \<^verbatim>\<open>onInput\<close> is called.
\<close>

theorem activation:
  assumes "unsubscribe (inst sys) = None"
  shows "trace (componentDidMount reducer isShallowEqual p sys) =
           trace sys @ [Dispatch (UpdateSettings (settings p)),
                        Dispatch (ResetBlocks (value_prop p)),
                        Subscribe (registry p)] \<and>
         blocks (inst (componentDidMount reducer isShallowEqual p sys)) =
           getBlocks (reducer (ResetBlocks (value_prop p))
                        (reducer (UpdateSettings (settings p)) (stores sys (registry p)))) \<and>
         isPersistent (inst (componentDidMount reducer isShallowEqual p sys)) =
           isLastBlockChangePersistent (reducer (ResetBlocks (value_prop p))
                        (reducer (UpdateSettings (settings p)) (stores sys (registry p)))) \<and>
         filter isEmission (trace (componentDidMount reducer isShallowEqual p sys)) =
           filter isEmission (trace sys)"
  using assms
  by (simp add: componentDidMount_def dispatch_def notify_def attachChangeObserver_def Let_def)

theorem activation_witness:
  "unsubscribe (inst unmounted) = None \<and>
   trace (componentDidMount exampleReducer exampleEqual (hostProps 5 (Some 20) (Some 21)) unmounted) =
     [Dispatch (UpdateSettings 30), Dispatch (ResetBlocks 5), Subscribe 0] \<and>
   blocks (inst (componentDidMount exampleReducer exampleEqual
     (hostProps 5 (Some 20) (Some 21)) unmounted)) = 105 \<and>
   isPersistent (inst (componentDidMount exampleReducer exampleEqual
     (hostProps 5 (Some 20) (Some 21)) unmounted))"
  using activation [of unmounted exampleReducer exampleEqual "hostProps 5 (Some 20) (Some 21)"]
  by (simp add: unmounted_def exampleReducer_def hostProps_def edited_def)

end
